theory Spec2Isabelle
  imports Complex_Main "HOL-Library.Word" "HOL-Library.Log_Nat"
begin

section \<open>JavaScript values as the program sees them\<close>

subsection \<open>Strings\<close>

text \<open>
  A JavaScript string is a sequence of UTF-16 code units: \<open>text.length\<close> counts code
  units, and the two regular expressions of \<open>isTOONFormat\<close> (written without the
  \<open>u\<close> flag) match code unit by code unit.
\<close>

type_synonym code_unit = "16 word"
type_synonym jsstring = "code_unit list"

definition js :: "string \<Rightarrow> jsstring" where
  \<comment> \<open>a string literal of the source, every character in the Latin-1 range\<close>
  "js s = map of_char s"

subsection \<open>Numbers\<close>

text \<open>
  A JavaScript number is an IEEE 754 double: \<open>NaN\<close>, an infinity, or a finite value,
  which is a rational number. The arithmetic operators compute the exact result and round
  it to the nearest double, ties to even, as the language prescribes. The two zeros are
  one value here: every divisor in the program is a count, so no division by a negative
  zero occurs.
\<close>

datatype jsnum = NaN | NegInf | Num rat | PosInf

definition signed_inf :: "bool \<Rightarrow> jsnum" where
  "signed_inf positive = (if positive then PosInf else NegInf)"

definition pow2 :: "int \<Rightarrow> rat" where
  "pow2 k = (if 0 \<le> k then 2 ^ nat k else 1 / 2 ^ nat (- k))"

definition binade :: "rat \<Rightarrow> int" where
  \<comment> \<open>for \<open>a > 0\<close>, the exponent \<open>e\<close> with \<open>2^e \<le> a < 2^(e+1)\<close>\<close>
  "binade a = (if 1 \<le> a then bitlen \<lfloor>a\<rfloor> - 1 else - bitlen (\<lceil>1 / a\<rceil> - 1))"

definition round_half_even :: "rat \<Rightarrow> int" where
  "round_half_even y =
     (let f = \<lfloor>y\<rfloor>; r = y - of_int f
      in if r < 1 / 2 then f else if 1 / 2 < r then f + 1 else if even f then f else f + 1)"

definition round_double :: "rat \<Rightarrow> jsnum" where
  \<comment> \<open>the double nearest to \<open>x\<close>: a significand of 53 bits, exponents from \<open>-1022\<close>
      (below it the subnormal spacing \<open>2^-1074\<close>), and an infinity from \<open>2^1024\<close> on\<close>
  "round_double x =
     (if x = 0 then Num 0
      else (let a = \<bar>x\<bar>;
                q = max (binade a) (- 1022) - 52;
                r = of_int (round_half_even (a / pow2 q)) * pow2 q
            in if pow2 1024 \<le> r then signed_inf (0 < x)
               else Num (if 0 < x then r else - r)))"

fun js_add :: "jsnum \<Rightarrow> jsnum \<Rightarrow> jsnum" where
  "js_add (Num a) (Num b) = round_double (a + b)"
| "js_add NaN _ = NaN"
| "js_add _ NaN = NaN"
| "js_add PosInf NegInf = NaN"
| "js_add NegInf PosInf = NaN"
| "js_add PosInf _ = PosInf"
| "js_add _ PosInf = PosInf"
| "js_add NegInf _ = NegInf"
| "js_add _ NegInf = NegInf"

fun js_mul :: "jsnum \<Rightarrow> jsnum \<Rightarrow> jsnum" where
  "js_mul (Num a) (Num b) = round_double (a * b)"
| "js_mul NaN _ = NaN"
| "js_mul _ NaN = NaN"
| "js_mul PosInf (Num b) = (if b = 0 then NaN else signed_inf (0 < b))"
| "js_mul NegInf (Num b) = (if b = 0 then NaN else signed_inf (b < 0))"
| "js_mul (Num a) PosInf = (if a = 0 then NaN else signed_inf (0 < a))"
| "js_mul (Num a) NegInf = (if a = 0 then NaN else signed_inf (a < 0))"
| "js_mul PosInf PosInf = PosInf"
| "js_mul NegInf NegInf = PosInf"
| "js_mul PosInf NegInf = NegInf"
| "js_mul NegInf PosInf = NegInf"

fun js_div :: "jsnum \<Rightarrow> jsnum \<Rightarrow> jsnum" where
  "js_div (Num a) (Num b) =
     (if b = 0 then (if a = 0 then NaN else signed_inf (0 < a)) else round_double (a / b))"
| "js_div NaN _ = NaN"
| "js_div _ NaN = NaN"
| "js_div (Num a) PosInf = Num 0"
| "js_div (Num a) NegInf = Num 0"
| "js_div PosInf (Num b) = signed_inf (0 \<le> b)"
| "js_div NegInf (Num b) = signed_inf (b < 0)"
| "js_div PosInf PosInf = NaN"
| "js_div PosInf NegInf = NaN"
| "js_div NegInf PosInf = NaN"
| "js_div NegInf NegInf = NaN"

text \<open>The relational operators: every comparison with \<open>NaN\<close> is false.\<close>

fun js_le :: "jsnum \<Rightarrow> jsnum \<Rightarrow> bool" where
  "js_le (Num a) (Num b) = (a \<le> b)"
| "js_le NaN _ = False"
| "js_le _ NaN = False"
| "js_le NegInf _ = True"
| "js_le _ PosInf = True"
| "js_le PosInf _ = False"
| "js_le _ NegInf = False"

fun js_lt :: "jsnum \<Rightarrow> jsnum \<Rightarrow> bool" where
  "js_lt (Num a) (Num b) = (a < b)"
| "js_lt NaN _ = False"
| "js_lt _ NaN = False"
| "js_lt PosInf _ = False"
| "js_lt _ NegInf = False"
| "js_lt NegInf _ = True"
| "js_lt _ PosInf = True"

definition js_ge :: "jsnum \<Rightarrow> jsnum \<Rightarrow> bool" where
  "js_ge a b = js_le b a"

definition js_gt :: "jsnum \<Rightarrow> jsnum \<Rightarrow> bool" where
  "js_gt a b = js_lt b a"

definition of_count :: "nat \<Rightarrow> jsnum" where
  \<comment> \<open>a counter of the program, read as a number; counts and lengths stay below
      \<open>2^53\<close>, where every integer is a double\<close>
  "of_count n = Num (of_nat n)"

subsection \<open>Values\<close>

text \<open>
  The \<open>data\<close> of a request is a JSON-like tree. An object is the list of its own
  enumerable properties in the order \<open>Object.keys\<close> lists them; the keys of a JavaScript
  object are distinct, which \<open>wf_value\<close> records.
\<close>

datatype jsvalue =
    JNull
  | JBool bool
  | JNum jsnum
  | JStr jsstring
  | JArr "jsvalue list"
  | JObj "(jsstring \<times> jsvalue) list"

fun wf_value :: "jsvalue \<Rightarrow> bool" where
  "wf_value (JArr items) = list_all wf_value items"
| "wf_value (JObj props) =
     (distinct (map fst props) \<and> list_all (\<lambda>kv. wf_value (snd kv)) props)"
| "wf_value _ = True"

subsection \<open>The functions the module imports\<close>

text \<open>
  \<open>encode\<close> and \<open>decode\<close> come from the package \<open>@toon-format/toon\<close>;
  \<open>JSON.stringify\<close>, \<open>JSON.parse\<close>, the conversion of a number to a string in a
  template literal and \<open>toFixed\<close> are built in. None of them is code of the module, so
  they are parameters of the model. A function that can throw returns \<open>None\<close> when it
  does.
\<close>

record host =
  toonEncode :: "jsvalue \<Rightarrow> jsstring"
  toonDecode :: "jsstring \<Rightarrow> jsvalue option"
  JSON_stringify :: "jsvalue \<Rightarrow> jsstring"
  JSON_parse :: "jsstring \<Rightarrow> jsvalue option"
  Number_toString :: "jsnum \<Rightarrow> jsstring"
  Number_toFixed :: "jsnum \<Rightarrow> nat \<Rightarrow> jsstring"

text \<open>The calls a pipeline operation makes, in the order it makes them.\<close>

datatype call =
    CallAnalyzeEligibility jsvalue
  | CallCalculateTokenSavings jsvalue
  | CallJSONStringify jsvalue
  | CallToonEncode jsvalue
  | CallToonDecode jsstring
  | CallJSONParse jsstring

section \<open>The cost estimator\<close>

record TokenMetrics =
  original :: int
  toon :: int
  savings :: int
  percentSaved :: jsnum

definition encodeToTOON :: "host \<Rightarrow> jsvalue \<Rightarrow> jsstring" where
  "encodeToTOON h d = toonEncode h d"

definition decodeFromTOON :: "host \<Rightarrow> jsstring \<Rightarrow> jsvalue option" where
  "decodeFromTOON h toonData = toonDecode h toonData"

definition countTokens :: "jsstring \<Rightarrow> int" where
  "countTokens text = \<lceil>(of_nat (length text) :: rat) / 4\<rceil>"

definition calculateTokenSavings :: "host \<Rightarrow> jsvalue \<Rightarrow> TokenMetrics" where
  "calculateTokenSavings h jsonData =
     (let jsonString = JSON_stringify h jsonData;
          toonString = encodeToTOON h jsonData;
          original = countTokens jsonString;
          toon = countTokens toonString;
          savings = original - toon;
          percentSaved =
            (if original > 0
             then js_mul (js_div (Num (of_int savings)) (Num (of_int original))) (Num 100)
             else Num 0)
      in \<lparr>original = original, toon = toon, savings = savings,
          percentSaved = percentSaved\<rparr>)"

definition calculateTokenSavings_calls :: "jsvalue \<Rightarrow> call list" where
  "calculateTokenSavings_calls jsonData =
     [CallJSONStringify jsonData, CallToonEncode jsonData]"

section \<open>The structural analyzer\<close>

record StructuralStats =
  percentTabular :: jsnum
  nestedDepth :: nat
  uniformityScore :: jsnum

text \<open>The five variables that \<open>traverse\<close> updates while it walks the value.\<close>

record counters =
  totalArrays :: nat
  tabularArrays :: nat
  maxDepth :: nat
  uniformitySum :: jsnum
  uniformityCount :: nat

fun is_plain_object :: "jsvalue \<Rightarrow> bool" where
  \<comment> \<open>\<open>item !== null && typeof item === 'object' && !Array.isArray(item)\<close>\<close>
  "is_plain_object (JObj props) = True"
| "is_plain_object JNull = False"
| "is_plain_object (JBool b) = False"
| "is_plain_object (JNum n) = False"
| "is_plain_object (JStr s) = False"
| "is_plain_object (JArr items) = False"

text \<open>
  \<open>Object.keys\<close> and the \<open>in\<close> operator. The program applies both only to elements
  of an array that passed the object test of \<open>isUniformObjectArray\<close>, so the cases other
  than \<open>JObj\<close> are never evaluated. Properties inherited from \<open>Object.prototype\<close>
  are left out of \<open>in\<close>: where the program evaluates it, the field is an own key.
\<close>

fun Object_keys :: "jsvalue \<Rightarrow> jsstring list" where
  "Object_keys (JObj props) = map fst props"
| "Object_keys JNull = []"
| "Object_keys (JBool b) = []"
| "Object_keys (JNum n) = []"
| "Object_keys (JStr s) = []"
| "Object_keys (JArr items) = []"

definition has_property :: "jsstring \<Rightarrow> jsvalue \<Rightarrow> bool" where
  "has_property field obj = (field \<in> set (Object_keys obj))"

definition isUniformObjectArray :: "jsvalue list \<Rightarrow> bool" where
  "isUniformObjectArray arr =
     (if length arr = 0 then False
      else if \<not> list_all is_plain_object arr then False
      else (let firstKeys = Object_keys (arr ! 0)
            in list_all (\<lambda>item.
                 (let keys = Object_keys item
                  in length keys = length (remdups firstKeys) \<and>
                     list_all (\<lambda>k. k \<in> set firstKeys) keys)) arr))"

definition calculateUniformity :: "jsvalue list \<Rightarrow> jsnum" where
  "calculateUniformity arr =
     (if length arr = 0 then Num 1
      else (let referenceFields = Object_keys (arr ! 0);
                totalFields = length referenceFields * length arr;
                presentFields =
                  fold (\<lambda>obj present.
                          fold (\<lambda>field present.
                                  if has_property field obj then present + 1 else present)
                               referenceFields present)
                       arr (0::nat)
            in js_div (of_count presentFields) (of_count totalFields)))"

fun traverse :: "jsvalue \<Rightarrow> nat \<Rightarrow> counters \<Rightarrow> counters"
  and traverse_items :: "jsvalue list \<Rightarrow> nat \<Rightarrow> counters \<Rightarrow> counters"
  and traverse_values :: "(jsstring \<times> jsvalue) list \<Rightarrow> nat \<Rightarrow> counters \<Rightarrow> counters"
where
  "traverse (JArr items) depth c =
     (let c1 = c\<lparr>maxDepth := max (maxDepth c) depth\<rparr>;
          c2 = c1\<lparr>totalArrays := totalArrays c1 + 1\<rparr>;
          c3 = (if length items > 0 \<and> isUniformObjectArray items
                then c2\<lparr>tabularArrays := tabularArrays c2 + 1,
                        uniformitySum := js_add (uniformitySum c2) (calculateUniformity items),
                        uniformityCount := uniformityCount c2 + 1\<rparr>
                else c2)
      in traverse_items items (depth + 1) c3)"
| "traverse (JObj props) depth c =
     traverse_values props (depth + 1) (c\<lparr>maxDepth := max (maxDepth c) depth\<rparr>)"
| "traverse JNull depth c = c\<lparr>maxDepth := max (maxDepth c) depth\<rparr>"
| "traverse (JBool b) depth c = c\<lparr>maxDepth := max (maxDepth c) depth\<rparr>"
| "traverse (JNum n) depth c = c\<lparr>maxDepth := max (maxDepth c) depth\<rparr>"
| "traverse (JStr s) depth c = c\<lparr>maxDepth := max (maxDepth c) depth\<rparr>"
| "traverse_items [] depth c = c"
| "traverse_items (item # items) depth c = traverse_items items depth (traverse item depth c)"
| "traverse_values [] depth c = c"
| "traverse_values (kv # props) depth c =
     traverse_values props depth (traverse (snd kv) depth c)"

definition initial_counters :: counters where
  "initial_counters =
     \<lparr>totalArrays = 0, tabularArrays = 0, maxDepth = 0,
      uniformitySum = Num 0, uniformityCount = 0\<rparr>"

definition analyzeDataStructure :: "jsvalue \<Rightarrow> StructuralStats" where
  "analyzeDataStructure d =
     (let c = traverse d 0 initial_counters;
          percentTabular =
            (if totalArrays c > 0
             then js_mul (js_div (of_count (tabularArrays c)) (of_count (totalArrays c)))
                         (Num 100)
             else Num 0);
          uniformityScore =
            (if uniformityCount c > 0
             then js_div (uniformitySum c) (of_count (uniformityCount c))
             else Num 1)
      in \<lparr>percentTabular = percentTabular, nestedDepth = maxDepth c,
          uniformityScore = uniformityScore\<rparr>)"

text \<open>Whether an array occurs anywhere in the tree of a value.\<close>

fun has_array :: "jsvalue \<Rightarrow> bool" where
  "has_array (JArr items) = True"
| "has_array (JObj props) = list_ex (\<lambda>kv. has_array (snd kv)) props"
| "has_array JNull = False"
| "has_array (JBool b) = False"
| "has_array (JNum n) = False"
| "has_array (JStr s) = False"

definition same_counts :: "counters \<Rightarrow> counters \<Rightarrow> bool" where
  \<comment> \<open>the two states differ at most in \<open>maxDepth\<close>\<close>
  "same_counts c c' =
     (totalArrays c' = totalArrays c \<and> tabularArrays c' = tabularArrays c \<and>
      uniformitySum c' = uniformitySum c \<and> uniformityCount c' = uniformityCount c)"

section \<open>The eligibility decision\<close>

record Thresholds =
  minTabularPercent :: jsnum
  maxNestedDepth :: jsnum
  minUniformityScore :: jsnum

record TOONConfig =
  eligibility :: Thresholds

definition DEFAULT_CONFIG :: TOONConfig where
  "DEFAULT_CONFIG =
     \<lparr>eligibility =
        \<lparr>minTabularPercent = Num 60, maxNestedDepth = Num 4,
         minUniformityScore = Num (8 / 10)\<rparr>\<rparr>"

text \<open>
  \<open>DEFAULT_CONFIG\<close> is an object of the module, and \<open>const\<close> fixes the binding, not
  the properties: the functions below read its thresholds when they run. The model passes
  the object they read as the argument \<open>defaults\<close>; the definition above is its value as
  the module initialises it, and no function of the module writes to it.
\<close>

record EligibilityAnalysis = StructuralStats +
  shouldUseTOON :: bool
  reason :: jsstring

fun join :: "jsstring \<Rightarrow> jsstring list \<Rightarrow> jsstring" where
  \<comment> \<open>\<open>Array.prototype.join\<close>\<close>
  "join sep [] = []"
| "join sep [x] = x"
| "join sep (x # y # ys) = x @ sep @ join sep (y # ys)"

definition analyzeEligibility ::
  "TOONConfig \<Rightarrow> host \<Rightarrow> jsvalue \<Rightarrow> EligibilityAnalysis" where
  "analyzeEligibility defaults h d =
     (let stats = analyzeDataStructure d;
          shouldUseTOON =
            (js_ge (percentTabular stats) (minTabularPercent (eligibility defaults)) \<and>
             js_le (of_count (nestedDepth stats)) (maxNestedDepth (eligibility defaults)) \<and>
             js_ge (uniformityScore stats) (minUniformityScore (eligibility defaults)));
          reasons1 =
            (if js_ge (percentTabular stats) (Num 80)
             then [js ''highly tabular data (ideal for TOON)'']
             else if js_ge (percentTabular stats) (Num 60)
             then [js ''moderately tabular data (good fit for TOON)'']
             else [js ''only '' @ Number_toString h (percentTabular stats) @
                   js ''% tabular (TOON less beneficial)'']);
          reasons2 =
            (if js_gt (of_count (nestedDepth stats)) (maxNestedDepth (eligibility defaults))
             then reasons1 @ [js ''deep nesting ('' @
                              Number_toString h (of_count (nestedDepth stats)) @ js '' levels)'']
             else reasons1);
          reasons3 =
            (if js_lt (uniformityScore stats) (minUniformityScore (eligibility defaults))
             then reasons2 @ [js ''low uniformity score ('' @
                              Number_toFixed h (uniformityScore stats) 2 @ js '')'']
             else reasons2)
      in \<lparr>percentTabular = percentTabular stats, nestedDepth = nestedDepth stats,
          uniformityScore = uniformityScore stats,
          shouldUseTOON = shouldUseTOON, reason = join (js ''; '') reasons3\<rparr>)"

section \<open>The pipeline\<close>

record LLMRequest =
  systemPrompt :: jsstring
  userMessage :: jsstring
  data :: "jsvalue option"

text \<open>
  An absent \<open>data\<close> (\<open>undefined\<close>) is \<open>None\<close>. When \<open>toonProcessed\<close> is true, \<open>data\<close>
  holds the encoded text, a string value.
\<close>

record ProcessedRequest = LLMRequest +
  toonProcessed :: bool
  metrics :: "TokenMetrics option"

text \<open>
  The object \<open>{ request, eligibility }\<close> that pre-processing returns. Its second field
  has the name of the field of \<open>TOONConfig\<close>, which is written
  \<open>TOONConfig.eligibility\<close> from here on.
\<close>

record PreProcessResult =
  request :: ProcessedRequest
  eligibility :: EligibilityAnalysis

fun truthy :: "jsvalue \<Rightarrow> bool" where
  \<comment> \<open>the values for which \<open>!request.data\<close> is false\<close>
  "truthy JNull = False"
| "truthy (JBool b) = b"
| "truthy (JNum n) = (n \<noteq> NaN \<and> n \<noteq> Num 0)"
| "truthy (JStr s) = (s \<noteq> [])"
| "truthy (JArr items) = True"
| "truthy (JObj props) = True"

definition unprocessed :: "LLMRequest \<Rightarrow> ProcessedRequest" where
  \<comment> \<open>the object literal \<open>{ ...request, toonProcessed: false }\<close>\<close>
  "unprocessed req =
     \<lparr>systemPrompt = systemPrompt req, userMessage = userMessage req, data = data req,
      toonProcessed = False, metrics = None\<rparr>"

definition no_data_analysis :: EligibilityAnalysis where
  "no_data_analysis =
     \<lparr>percentTabular = Num 0, nestedDepth = 0, uniformityScore = Num 0,
      shouldUseTOON = False, reason = js ''no data''\<rparr>"

definition preProcessRequest ::
  "TOONConfig \<Rightarrow> host \<Rightarrow> LLMRequest \<Rightarrow> PreProcessResult \<times> call list" where
  "preProcessRequest defaults h req =
     (case data req of
        None \<Rightarrow> (\<lparr>request = unprocessed req, eligibility = no_data_analysis\<rparr>, [])
      | Some d \<Rightarrow>
          if \<not> truthy d
          then (\<lparr>request = unprocessed req, eligibility = no_data_analysis\<rparr>, [])
          else (let eligibility = analyzeEligibility defaults h d
                in if \<not> shouldUseTOON eligibility
                   then (\<lparr>request = unprocessed req, eligibility = eligibility\<rparr>,
                         [CallAnalyzeEligibility d])
                   else (let metrics = calculateTokenSavings h d;
                             toonData = encodeToTOON h d
                         in (\<lparr>request =
                               \<lparr>systemPrompt = systemPrompt req, userMessage = userMessage req,
                                data = Some (JStr toonData),
                                toonProcessed = True, metrics = Some metrics\<rparr>,
                              eligibility = eligibility\<rparr>,
                             [CallAnalyzeEligibility d, CallCalculateTokenSavings d] @
                             calculateTokenSavings_calls d @ [CallToonEncode d]))))"

subsection \<open>Recognising the tabular format\<close>

definition is_digit :: "code_unit \<Rightarrow> bool" where
  \<comment> \<open>the class \<open>\d\<close>\<close>
  "is_digit c = (48 \<le> c \<and> c \<le> 57)"

definition LBRACKET :: code_unit where "LBRACKET = 91"
definition RBRACKET :: code_unit where "RBRACKET = 93"
definition LBRACE :: code_unit where "LBRACE = 123"
definition RBRACE :: code_unit where "RBRACE = 125"

definition length_marker_here :: "jsstring \<Rightarrow> bool" where
  \<comment> \<open>\<open>\d+\]\<close> at the start of the text: the digits are taken greedily, and giving one
      back never helps, since a digit is not a closing bracket\<close>
  "length_marker_here cs =
     (takeWhile is_digit cs \<noteq> [] \<and>
      (case dropWhile is_digit cs of [] \<Rightarrow> False | c # rest \<Rightarrow> c = RBRACKET))"

fun test_length_marker :: "jsstring \<Rightarrow> bool" where
  \<comment> \<open>\<open>/\[\d+\]/.test(text)\<close>: a match may start at any position\<close>
  "test_length_marker [] = False"
| "test_length_marker (c # cs) =
     ((c = LBRACKET \<and> length_marker_here cs) \<or> test_length_marker cs)"

definition field_list_here :: "jsstring \<Rightarrow> bool" where
  \<comment> \<open>\<open>[^}]+\}\<close> at the start of the text\<close>
  "field_list_here cs =
     (takeWhile (\<lambda>c. c \<noteq> RBRACE) cs \<noteq> [] \<and> dropWhile (\<lambda>c. c \<noteq> RBRACE) cs \<noteq> [])"

fun test_field_list :: "jsstring \<Rightarrow> bool" where
  \<comment> \<open>\<open>/\{[^}]+\}/.test(text)\<close>\<close>
  "test_field_list [] = False"
| "test_field_list (c # cs) =
     ((c = LBRACE \<and> field_list_here cs) \<or> test_field_list cs)"

definition isTOONFormat :: "jsstring \<Rightarrow> bool" where
  "isTOONFormat text = (test_length_marker text \<and> test_field_list text)"

definition is_white_space :: "code_unit \<Rightarrow> bool" where
  \<comment> \<open>the white space and line terminators that \<open>String.prototype.trim\<close> strips\<close>
  "is_white_space c =
     (c \<in> set [0x0009, 0x000A, 0x000B, 0x000C, 0x000D, 0x0020, 0x00A0, 0x1680,
               0x2028, 0x2029, 0x202F, 0x205F, 0x3000, 0xFEFF] \<or>
      (0x2000 \<le> c \<and> c \<le> 0x200A))"

definition trim :: "jsstring \<Rightarrow> jsstring" where
  "trim s = rev (dropWhile is_white_space (rev (dropWhile is_white_space s)))"

subsection \<open>Decoding a response\<close>

record LLMResponse =
  content :: jsstring

datatype response_format = FormatToon | FormatJson | FormatNone

record PostProcessResult =
  parsed :: "jsvalue option"
  success :: bool
  format :: response_format
  error :: "jsstring option"

definition postProcessResponse :: "host \<Rightarrow> LLMResponse \<Rightarrow> PostProcessResult \<times> call list" where
  "postProcessResponse h response =
     (if content response = []
      then (\<lparr>parsed = None, success = False, format = FormatNone, error = None\<rparr>, [])
      else (let trimmed = trim (content response)
            in if \<not> isTOONFormat trimmed
               then (\<lparr>parsed = None, success = False, format = FormatNone, error = None\<rparr>, [])
               else (case decodeFromTOON h trimmed of
                       Some v \<Rightarrow>
                         (\<lparr>parsed = Some v, success = True, format = FormatToon,
                           error = None\<rparr>,
                          [CallToonDecode trimmed])
                     | None \<Rightarrow>
                         (case JSON_parse h (content response) of
                            Some v \<Rightarrow>
                              (\<lparr>parsed = Some v, success = True, format = FormatJson,
                                error = Some (js ''TOON decode failed, fell back to JSON'')\<rparr>,
                               [CallToonDecode trimmed, CallJSONParse (content response)])
                          | None \<Rightarrow>
                              (\<lparr>parsed = None, success = False, format = FormatNone,
                                error = Some (js ''Both formats failed'')\<rparr>,
                               [CallToonDecode trimmed, CallJSONParse (content response)])))))"

subsection \<open>The processor class\<close>

record TOONProcessor =
  config :: TOONConfig

definition new_TOONProcessor :: "TOONConfig \<Rightarrow> TOONConfig option \<Rightarrow> TOONProcessor" where
  \<comment> \<open>the constructor: \<open>{ ...DEFAULT_CONFIG, ...config }\<close>, where \<open>None\<close> is a missing
      argument or one without the \<open>eligibility\<close> property\<close>
  "new_TOONProcessor defaults cfg =
     \<lparr>config = (case cfg of None \<Rightarrow> defaults | Some c \<Rightarrow> c)\<rparr>"

definition getConfig :: "TOONProcessor \<Rightarrow> TOONConfig" where
  "getConfig p = config p"

definition updateConfig :: "TOONProcessor \<Rightarrow> TOONConfig option \<Rightarrow> TOONProcessor" where
  \<comment> \<open>\<open>this.config = { ...this.config, ...config }\<close>\<close>
  "updateConfig p cfg = p\<lparr>config := (case cfg of None \<Rightarrow> config p | Some c \<Rightarrow> c)\<rparr>"

definition preProcess ::
  "TOONProcessor \<Rightarrow> TOONConfig \<Rightarrow> host \<Rightarrow> LLMRequest \<Rightarrow> PreProcessResult \<times> call list"
  where
  "preProcess p defaults h req =
     (case data req of
        None \<Rightarrow> (\<lparr>request = unprocessed req, eligibility = no_data_analysis\<rparr>, [])
      | Some d \<Rightarrow>
          if \<not> truthy d
          then (\<lparr>request = unprocessed req, eligibility = no_data_analysis\<rparr>, [])
          else (let eligibility = analyzeEligibility defaults h d
                in if \<not> shouldUseTOON eligibility
                   then (\<lparr>request = unprocessed req, eligibility = eligibility\<rparr>,
                         [CallAnalyzeEligibility d])
                   else (let metrics = calculateTokenSavings h d;
                             toonData = encodeToTOON h d
                         in (\<lparr>request =
                               \<lparr>systemPrompt = systemPrompt req, userMessage = userMessage req,
                                data = Some (JStr toonData),
                                toonProcessed = True, metrics = Some metrics\<rparr>,
                              eligibility = eligibility\<rparr>,
                             [CallAnalyzeEligibility d, CallCalculateTokenSavings d] @
                             calculateTokenSavings_calls d @ [CallToonEncode d]))))"

definition postProcess ::
  "TOONProcessor \<Rightarrow> host \<Rightarrow> LLMResponse \<Rightarrow> PostProcessResult \<times> call list" where
  "postProcess p h response =
     (if content response = []
      then (\<lparr>parsed = None, success = False, format = FormatNone, error = None\<rparr>, [])
      else (let trimmed = trim (content response)
            in if \<not> isTOONFormat trimmed
               then (\<lparr>parsed = None, success = False, format = FormatNone, error = None\<rparr>, [])
               else (case decodeFromTOON h trimmed of
                       Some v \<Rightarrow>
                         (\<lparr>parsed = Some v, success = True, format = FormatToon,
                           error = None\<rparr>,
                          [CallToonDecode trimmed])
                     | None \<Rightarrow>
                         (case JSON_parse h (content response) of
                            Some v \<Rightarrow>
                              (\<lparr>parsed = Some v, success = True, format = FormatJson,
                                error = Some (js ''TOON decode failed, fell back to JSON'')\<rparr>,
                               [CallToonDecode trimmed, CallJSONParse (content response)])
                          | None \<Rightarrow>
                              (\<lparr>parsed = None, success = False, format = FormatNone,
                                error = Some (js ''Both formats failed'')\<rparr>,
                               [CallToonDecode trimmed, CallJSONParse (content response)])))))"

section \<open>Example inputs\<close>

definition nested_example :: jsvalue where
  \<comment> \<open>\<open>{level1:{level2:{level3:{level4:{deep:"value"}}}}}\<close>\<close>
  "nested_example =
     JObj [(js ''level1'',
       JObj [(js ''level2'',
         JObj [(js ''level3'',
           JObj [(js ''level4'',
             JObj [(js ''deep'', JStr (js ''value''))])])])])]"

definition mixed_keys_example :: "jsvalue list" where
  \<comment> \<open>\<open>[{a:1,b:2},{a:3}]\<close>\<close>
  "mixed_keys_example =
     [JObj [(js ''a'', JNum (Num 1)), (js ''b'', JNum (Num 2))],
      JObj [(js ''a'', JNum (Num 3))]]"

definition same_keys_example :: "jsvalue list" where
  \<comment> \<open>\<open>[{a:1,b:2},{b:3,a:4}]\<close>\<close>
  "same_keys_example =
     [JObj [(js ''a'', JNum (Num 1)), (js ''b'', JNum (Num 2))],
      JObj [(js ''b'', JNum (Num 3)), (js ''a'', JNum (Num 4))]]"

definition prose_response :: LLMResponse where
  "prose_response = \<lparr>content = js ''plain prose, no markers''\<rparr>"

definition fallback_text :: jsstring where
  \<open>fallback_text = js '' {"a":[1]}''\<close>

definition fallback_value :: jsvalue where
  "fallback_value = JObj [(js ''a'', JArr [JNum (Num 1)])]"

definition example_host :: host where
  "example_host =
     \<lparr>toonEncode = (\<lambda>v. []), toonDecode = (\<lambda>s. None),
      JSON_stringify = (\<lambda>v. []),
      JSON_parse = (\<lambda>s. if s = fallback_text then Some fallback_value else None),
      Number_toString = (\<lambda>n. []), Number_toFixed = (\<lambda>n digits. [])\<rparr>"

definition sizes_host :: host where
  \<comment> \<open>a JSON text of 80 code units and an encoded text of 36\<close>
  "sizes_host =
     \<lparr>toonEncode = (\<lambda>v. replicate 36 120), toonDecode = (\<lambda>s. None),
      JSON_stringify = (\<lambda>v. replicate 80 120), JSON_parse = (\<lambda>s. None),
      Number_toString = (\<lambda>n. []), Number_toFixed = (\<lambda>n digits. [])\<rparr>"

definition equal_sizes_host :: host where
  \<comment> \<open>a JSON text and an encoded text of 80 code units each\<close>
  "equal_sizes_host =
     \<lparr>toonEncode = (\<lambda>v. replicate 80 120), toonDecode = (\<lambda>s. None),
      JSON_stringify = (\<lambda>v. replicate 80 120), JSON_parse = (\<lambda>s. None),
      Number_toString = (\<lambda>n. []), Number_toFixed = (\<lambda>n digits. [])\<rparr>"

definition empty_encoding_host :: host where
  \<comment> \<open>a JSON text of 80 code units and an empty encoded text\<close>
  "empty_encoding_host =
     \<lparr>toonEncode = (\<lambda>v. []), toonDecode = (\<lambda>s. None),
      JSON_stringify = (\<lambda>v. replicate 80 120), JSON_parse = (\<lambda>s. None),
      Number_toString = (\<lambda>n. []), Number_toFixed = (\<lambda>n digits. [])\<rparr>"

definition lenient_thresholds :: Thresholds where
  "lenient_thresholds =
     \<lparr>minTabularPercent = Num 0, maxNestedDepth = Num 4, minUniformityScore = Num (8 / 10)\<rparr>"

definition strict_thresholds :: Thresholds where
  "strict_thresholds =
     \<lparr>minTabularPercent = Num 70, maxNestedDepth = Num 3, minUniformityScore = Num (9 / 10)\<rparr>"

definition lenient_processor :: TOONProcessor where
  "lenient_processor =
     new_TOONProcessor DEFAULT_CONFIG (Some \<lparr>TOONConfig.eligibility = lenient_thresholds\<rparr>)"

definition small_object :: jsvalue where
  "small_object = JObj [(js ''a'', JNum (Num 1))]"

definition small_request :: LLMRequest where
  "small_request = \<lparr>systemPrompt = [], userMessage = [], data = Some small_object\<rparr>"

definition nan_request :: LLMRequest where
  "nan_request =
     \<lparr>systemPrompt = js ''You are a data analyst.'', userMessage = js ''Analyze this data.'',
      data = Some (JNum NaN)\<rparr>"

section \<open>Properties of the cost estimator\<close>

lemma countTokens_div: "countTokens text = (int (length text) + 3) div 4"
proof -
  define n where "n = int (length text)"
  have "\<lceil>(of_int n :: rat) / 4\<rceil> = (n + 3) div 4"
    unfolding ceiling_divide_eq_div_numeral by linarith
  then show ?thesis
    by (simp add: countTokens_def n_def)
qed

lemma countTokens_nonneg: "0 \<le> countTokens text"
  by (simp add: countTokens_div)

text \<open>Some values of the rounding, by evaluation.\<close>

lemma round_double_0: "round_double 0 = Num 0"
  by (simp add: round_double_def)

lemma round_double_1: "round_double 1 = Num 1"
  by code_simp

lemma round_double_100: "round_double 100 = Num 100"
  by code_simp

lemma round_double_three_quarters: "round_double (3 / 4) = Num (3 / 4)"
  by code_simp

text \<open>
  C8, as the code has it. The token proxy is \<open>tokens(text) = ceil(length(text) / 4)\<close>,
  the least integer whose fourfold reaches the length of the text, and for every input
  value the metrics satisfy \<open>savings = original - toon\<close>, where \<open>original\<close> and \<open>toon\<close>
  are the proxies of the JSON text and of the encoded text. \<open>percentSaved\<close> is 0 when
  \<open>original = 0\<close>, and otherwise the value of \<open>(savings / original) * 100\<close> in double
  arithmetic: the quotient is rounded to a double, and so is its product by 100. It is
  exactly 0 when nothing is saved and exactly 100 when the encoded text is empty.
\<close>

theorem calculateTokenSavings_metrics:
  "countTokens text = \<lceil>(of_nat (length text) :: rat) / 4\<rceil> \<and>
   int (length text) \<le> 4 * countTokens text \<and>
   4 * countTokens text < int (length text) + 4 \<and>
   original (calculateTokenSavings h v) = countTokens (JSON_stringify h v) \<and>
   toon (calculateTokenSavings h v) = countTokens (toonEncode h v) \<and>
   savings (calculateTokenSavings h v) =
     original (calculateTokenSavings h v) - toon (calculateTokenSavings h v) \<and>
   percentSaved (calculateTokenSavings h v) =
     (if original (calculateTokenSavings h v) = 0 then Num 0
      else js_mul (js_div (Num (of_int (savings (calculateTokenSavings h v))))
                          (Num (of_int (original (calculateTokenSavings h v)))))
                  (Num 100)) \<and>
   (savings (calculateTokenSavings h v) = 0 \<longrightarrow>
      percentSaved (calculateTokenSavings h v) = Num 0) \<and>
   (toon (calculateTokenSavings h v) = 0 \<and> original (calculateTokenSavings h v) \<noteq> 0 \<longrightarrow>
      percentSaved (calculateTokenSavings h v) = Num 100)"
proof -
  have pos: "0 < countTokens (JSON_stringify h v) \<longleftrightarrow> countTokens (JSON_stringify h v) \<noteq> 0"
    using countTokens_nonneg [of "JSON_stringify h v"] by linarith
  have bounds: "int (length text) \<le> 4 * countTokens text \<and>
      4 * countTokens text < int (length text) + 4"
    unfolding countTokens_div by presburger
  have ceil: "countTokens text = \<lceil>(of_nat (length text) :: rat) / 4\<rceil>"
    by (simp add: countTokens_def)
  show ?thesis
    using bounds ceil
    by (simp add: calculateTokenSavings_def encodeToTOON_def Let_def pos
        round_double_0 round_double_1 round_double_100)
qed

text \<open>
  A JSON text of 80 code units with an encoded text of 80, where nothing is saved, and
  with an empty encoded text, where everything is.
\<close>

theorem calculateTokenSavings_metrics_witness:
  "savings (calculateTokenSavings equal_sizes_host JNull) = 0 \<and>
   percentSaved (calculateTokenSavings equal_sizes_host JNull) = Num 0 \<and>
   toon (calculateTokenSavings empty_encoding_host JNull) = 0 \<and>
   original (calculateTokenSavings empty_encoding_host JNull) = 20 \<and>
   percentSaved (calculateTokenSavings empty_encoding_host JNull) = Num 100"
proof -
  have z: "savings (calculateTokenSavings equal_sizes_host JNull) = 0"
    by (simp add: calculateTokenSavings_def encodeToTOON_def Let_def equal_sizes_host_def)
  have "savings (calculateTokenSavings equal_sizes_host JNull) = 0 \<longrightarrow>
      percentSaved (calculateTokenSavings equal_sizes_host JNull) = Num 0"
    using calculateTokenSavings_metrics [of "[]" equal_sizes_host JNull] by blast
  with z have none: "percentSaved (calculateTokenSavings equal_sizes_host JNull) = Num 0"
    by blast
  have t: "toon (calculateTokenSavings empty_encoding_host JNull) = 0"
    and o: "original (calculateTokenSavings empty_encoding_host JNull) = 20"
    by (simp_all add: calculateTokenSavings_def encodeToTOON_def Let_def
        empty_encoding_host_def countTokens_div)
  have "toon (calculateTokenSavings empty_encoding_host JNull) = 0 \<and>
        original (calculateTokenSavings empty_encoding_host JNull) \<noteq> 0 \<longrightarrow>
      percentSaved (calculateTokenSavings empty_encoding_host JNull) = Num 100"
    using calculateTokenSavings_metrics [of "[]" empty_encoding_host JNull] by blast
  with t o have "percentSaved (calculateTokenSavings empty_encoding_host JNull) = Num 100"
    by simp
  with z none t o show ?thesis by blast
qed

text \<open>
  C8 as stated fails. With a JSON text of 80 code units and an encoded text of 36,
  \<open>original = 20\<close> and \<open>savings = 11\<close>. The exact \<open>100 * 11 / 20\<close> is 55, and the program
  returns \<open>55 + 2^-47\<close>, which prints as 55.00000000000001: the quotient 11/20 is no
  double, and the product of its rounding by 100 rounds upwards.
\<close>

theorem percentSaved_rounding_counterexample:
  "original (calculateTokenSavings sizes_host JNull) = 20 \<and>
   savings (calculateTokenSavings sizes_host JNull) = 11 \<and>
   percentSaved (calculateTokenSavings sizes_host JNull) =
     Num (7740561859543041 / 140737488355328) \<and>
   percentSaved (calculateTokenSavings sizes_host JNull) \<noteq> Num (100 * 11 / 20)"
proof -
  have o: "original (calculateTokenSavings sizes_host JNull) = 20"
    and s: "savings (calculateTokenSavings sizes_host JNull) = 11"
    by (simp_all add: calculateTokenSavings_def encodeToTOON_def Let_def sizes_host_def
        countTokens_div)
  have q: "js_div (Num 11) (Num 20) = Num (2476979795053773 / 4503599627370496)"
    by code_simp
  have m: "js_mul (Num (2476979795053773 / 4503599627370496)) (Num 100) =
      Num (7740561859543041 / 140737488355328)"
    by code_simp
  have p: "percentSaved (calculateTokenSavings sizes_host JNull) =
      js_mul (js_div (Num 11) (Num 20)) (Num 100)"
    by (simp add: calculateTokenSavings_def encodeToTOON_def Let_def sizes_host_def
        countTokens_div del: js_div.simps js_mul.simps)
  from o s show ?thesis
    unfolding p q m by simp
qed

section \<open>Properties of the structural analyzer\<close>

lemma same_counts_refl: "same_counts c c"
  by (simp add: same_counts_def)

lemma same_counts_trans: "same_counts a b \<Longrightarrow> same_counts b c \<Longrightarrow> same_counts a c"
  by (simp add: same_counts_def)

lemma same_counts_maxDepth: "same_counts c (c\<lparr>maxDepth := m\<rparr>)"
  by (simp add: same_counts_def)

lemma traverse_no_array:
  "\<not> has_array v \<Longrightarrow> same_counts c (traverse v depth c)"
  "list_all (\<lambda>v. \<not> has_array v) items \<Longrightarrow> same_counts c (traverse_items items depth c)"
  "list_all (\<lambda>kv. \<not> has_array (snd kv)) props \<Longrightarrow> same_counts c (traverse_values props depth c)"
proof (induction v depth c and items depth c and props depth c
       rule: traverse_traverse_items_traverse_values.induct)
  case (1 items depth c)
  then show ?case by simp
next
  case (2 props depth c)
  from 2 have "list_all (\<lambda>kv. \<not> has_array (snd kv)) props"
    by (simp add: list_all_iff list_ex_iff)
  then have "same_counts (c\<lparr>maxDepth := max (maxDepth c) depth\<rparr>)
       (traverse_values props (depth + 1) (c\<lparr>maxDepth := max (maxDepth c) depth\<rparr>))"
    by (rule "2.IH")
  then show ?case
    using same_counts_trans [OF same_counts_maxDepth] by simp
next
  case (8 item items depth c)
  from 8 have "same_counts c (traverse item depth c)"
    and "same_counts (traverse item depth c) (traverse_items items depth (traverse item depth c))"
    by simp_all
  then show ?case
    using same_counts_trans by simp
next
  case (10 kv props depth c)
  from 10 have "same_counts c (traverse (snd kv) depth c)"
    and "same_counts (traverse (snd kv) depth c)
           (traverse_values props depth (traverse (snd kv) depth c))"
    by simp_all
  then show ?case
    using same_counts_trans by simp
qed (simp_all add: same_counts_maxDepth same_counts_refl)

text \<open>
  C7. For every value with no array anywhere in its tree, the analysis returns
  \<open>percentTabular = 0\<close> and \<open>uniformityScore = 1\<close>: the default of 1 for "no tabular
  candidate" is distinct from the 0 of the tabular percentage.
\<close>

theorem no_array_stats:
  "\<not> has_array v \<Longrightarrow>
     percentTabular (analyzeDataStructure v) = Num 0 \<and>
     uniformityScore (analyzeDataStructure v) = Num 1"
  using traverse_no_array(1) [of v initial_counters 0]
  by (simp add: analyzeDataStructure_def Let_def same_counts_def initial_counters_def)

text \<open>The nested object of the example has no array.\<close>

theorem no_array_stats_witness:
  "percentTabular (analyzeDataStructure nested_example) = Num 0 \<and>
   uniformityScore (analyzeDataStructure nested_example) = Num 1"
proof -
  have "\<not> has_array nested_example"
    by (simp add: nested_example_def)
  then show ?thesis
    by (rule no_array_stats)
qed

lemma count_fields_fold:
  "fold (\<lambda>field present. if P field then present + 1 else present) fs (n::nat) =
     n + length (filter P fs)"
  by (induction fs arbitrary: n) simp_all

lemma count_fields_all:
  "list_all P fs \<Longrightarrow>
   fold (\<lambda>field present. if P field then present + 1 else present) fs (n::nat) = n + length fs"
  by (simp add: count_fields_fold list_all_iff)

lemma count_present_all:
  "list_all (\<lambda>obj. list_all (\<lambda>field. has_property field obj) ref) arr \<Longrightarrow>
   fold (\<lambda>obj present.
           fold (\<lambda>field present. if has_property field obj then present + 1 else present)
                ref present)
        arr (n::nat) = n + length ref * length arr"
proof (induction arr arbitrary: n)
  case Nil
  then show ?case by simp
next
  case (Cons obj arr)
  then show ?case by (simp add: count_fields_all)
qed

lemma calculateUniformity_all_present:
  assumes "arr \<noteq> []" and "Object_keys (arr ! 0) \<noteq> []"
    and "list_all (\<lambda>obj. list_all (\<lambda>field. has_property field obj) (Object_keys (arr ! 0))) arr"
  shows "calculateUniformity arr = Num 1"
  using assms
  by (simp add: calculateUniformity_def Let_def count_present_all of_count_def round_double_1)

lemma fold_id: "fold (\<lambda>obj. id) arr (n::nat) = n"
  by (induction arr) simp_all

lemma calculateUniformity_no_fields:
  assumes "arr \<noteq> []" and "Object_keys (arr ! 0) = []"
  shows "calculateUniformity arr = NaN"
  using assms by (simp add: calculateUniformity_def Let_def of_count_def fold_id)

lemma same_key_set:
  assumes "distinct keys" and "length keys = length (remdups firstKeys)"
    and "list_all (\<lambda>k. k \<in> set firstKeys) keys"
  shows "set keys = set firstKeys"
proof -
  have sub: "set keys \<subseteq> set firstKeys"
    using assms(3) by (auto simp: list_all_iff)
  have "card (set keys) = card (set firstKeys)"
    using assms(1,2) by (simp add: distinct_card length_remdups_card_conv)
  with sub show ?thesis
    by (simp add: card_subset_eq)
qed

lemma wf_distinct_keys: "wf_value v \<Longrightarrow> distinct (Object_keys v)"
  by (cases v) simp_all

lemma isUniformObjectArray_iff:
  assumes "arr \<noteq> []" and "list_all is_plain_object arr" and "list_all wf_value arr"
  shows "isUniformObjectArray arr \<longleftrightarrow>
         list_all (\<lambda>item. set (Object_keys item) = set (Object_keys (arr ! 0))) arr"
proof
  assume u: "isUniformObjectArray arr"
  show "list_all (\<lambda>item. set (Object_keys item) = set (Object_keys (arr ! 0))) arr"
    unfolding list_all_iff
  proof
    fix item assume i: "item \<in> set arr"
    with assms(3) have "distinct (Object_keys item)"
      by (simp add: list_all_iff wf_distinct_keys)
    moreover from u i assms(1,2)
    have "length (Object_keys item) = length (remdups (Object_keys (arr ! 0)))"
      and "list_all (\<lambda>k. k \<in> set (Object_keys (arr ! 0))) (Object_keys item)"
      by (simp_all add: isUniformObjectArray_def Let_def list_all_iff)
    ultimately show "set (Object_keys item) = set (Object_keys (arr ! 0))"
      by (rule same_key_set)
  qed
next
  assume s: "list_all (\<lambda>item. set (Object_keys item) = set (Object_keys (arr ! 0))) arr"
  have same: "set (Object_keys item) = set (Object_keys (arr ! 0))" if "item \<in> set arr" for item
    using that s unfolding list_all_iff by blast
  have len: "length (Object_keys item) = length (remdups (Object_keys (arr ! 0)))"
    if "item \<in> set arr" for item
  proof -
    from that assms(3) have "distinct (Object_keys item)"
      by (simp add: list_all_iff wf_distinct_keys)
    with same [OF that] show ?thesis
      by (metis distinct_card length_remdups_card_conv)
  qed
  have mem: "list_all (\<lambda>k. k \<in> set (Object_keys (arr ! 0))) (Object_keys item)"
    if "item \<in> set arr" for item
    unfolding list_all_iff same [OF that, symmetric] by blast
  from len mem assms(1,2) show "isUniformObjectArray arr"
    by (simp add: isUniformObjectArray_def Let_def list_all_iff)
qed

lemma isUniformObjectArray_all_present:
  assumes "isUniformObjectArray arr" and "list_all wf_value arr"
  shows "list_all (\<lambda>obj. list_all (\<lambda>field. has_property field obj) (Object_keys (arr ! 0))) arr"
proof -
  from assms(1) have ne: "arr \<noteq> []" and obj: "list_all is_plain_object arr"
    by (auto simp: isUniformObjectArray_def split: if_splits)
  from assms ne obj
  have "list_all (\<lambda>item. set (Object_keys item) = set (Object_keys (arr ! 0))) arr"
    by (simp add: isUniformObjectArray_iff)
  then have "set (Object_keys item) = set (Object_keys (arr ! 0))" if "item \<in> set arr" for item
    using that unfolding list_all_iff by blast
  then show ?thesis
    unfolding list_all_iff has_property_def by blast
qed

lemma traverse_flat_array:
  assumes "list_all (\<lambda>item. \<not> has_array item) arr"
  shows "same_counts
           (if length arr > 0 \<and> isUniformObjectArray arr
            then initial_counters\<lparr>totalArrays := 1, tabularArrays := 1,
                   uniformitySum := js_add (Num 0) (calculateUniformity arr),
                   uniformityCount := 1\<rparr>
            else initial_counters\<lparr>totalArrays := 1\<rparr>)
           (traverse (JArr arr) 0 initial_counters)"
proof -
  have "same_counts c (traverse_items arr 1 c)" for c
    using assms by (rule traverse_no_array(2))
  then show ?thesis
    by (simp add: Let_def same_counts_def initial_counters_def)
qed

lemma analyze_flat_array:
  assumes "list_all (\<lambda>item. \<not> has_array item) arr"
  shows "percentTabular (analyzeDataStructure (JArr arr)) =
           (if isUniformObjectArray arr then Num 100 else Num 0)"
    and "uniformityScore (analyzeDataStructure (JArr arr)) =
           (if isUniformObjectArray arr
            then js_div (js_add (Num 0) (calculateUniformity arr)) (Num 1) else Num 1)"
proof -
  have ne: "isUniformObjectArray arr \<Longrightarrow> length arr > 0"
    by (auto simp: isUniformObjectArray_def split: if_splits)
  note t = traverse_flat_array [OF assms]
  show "percentTabular (analyzeDataStructure (JArr arr)) =
           (if isUniformObjectArray arr then Num 100 else Num 0)"
    using t ne unfolding analyzeDataStructure_def same_counts_def
    by (cases "isUniformObjectArray arr")
       (simp_all add: Let_def of_count_def initial_counters_def round_double_0 round_double_1
          round_double_100 del: traverse.simps)
  show "uniformityScore (analyzeDataStructure (JArr arr)) =
           (if isUniformObjectArray arr
            then js_div (js_add (Num 0) (calculateUniformity arr)) (Num 1) else Num 1)"
    using t ne unfolding analyzeDataStructure_def same_counts_def
    by (cases "isUniformObjectArray arr")
       (simp_all add: Let_def of_count_def initial_counters_def
          del: traverse.simps js_div.simps js_add.simps)
qed

text \<open>
  C1, as the code has it. Take a non-empty array whose elements are all non-null,
  non-array mappings with array-free values. It counts as a tabular candidate exactly when
  every element has the key set of the first element, so a mismatch of the keys
  disqualifies the array: \<open>percentTabular\<close> is 100 when the key sets agree and 0 when
  they do not. When the first element has a key, the presence ratio
  \<open>presentFieldCount / (|referenceFields| * elementCount)\<close> of a counted array is
  exactly 1, and so is the \<open>uniformityScore\<close> of the analysis.
\<close>

theorem tabular_candidate_same_keys:
  assumes "arr \<noteq> []" and "list_all is_plain_object arr" and "list_all wf_value arr"
    and "list_all (\<lambda>item. \<not> has_array item) arr"
  shows "(isUniformObjectArray arr \<longleftrightarrow>
            list_all (\<lambda>item. set (Object_keys item) = set (Object_keys (arr ! 0))) arr) \<and>
         percentTabular (analyzeDataStructure (JArr arr)) =
            (if isUniformObjectArray arr then Num 100 else Num 0) \<and>
         (Object_keys (arr ! 0) \<noteq> [] \<longrightarrow>
            (isUniformObjectArray arr \<longrightarrow> calculateUniformity arr = Num 1) \<and>
            uniformityScore (analyzeDataStructure (JArr arr)) = Num 1)"
proof -
  have one: "calculateUniformity arr = Num 1"
    if "Object_keys (arr ! 0) \<noteq> []" and "isUniformObjectArray arr"
    using calculateUniformity_all_present [OF assms(1) that(1)]
      isUniformObjectArray_all_present [OF that(2) assms(3)] by simp
  show ?thesis
    using isUniformObjectArray_iff [OF assms(1,2,3)] analyze_flat_array [OF assms(4)] one
    by (simp add: round_double_1)
qed

text \<open>The array \<open>[{a:1,b:2},{b:3,a:4}]\<close> is such an array, and it is counted.\<close>

theorem tabular_candidate_same_keys_witness:
  "isUniformObjectArray same_keys_example \<and>
   percentTabular (analyzeDataStructure (JArr same_keys_example)) = Num 100 \<and>
   uniformityScore (analyzeDataStructure (JArr same_keys_example)) = Num 1"
proof -
  have h: "same_keys_example \<noteq> []" "list_all is_plain_object same_keys_example"
    "list_all wf_value same_keys_example"
    "list_all (\<lambda>item. \<not> has_array item) same_keys_example"
    by (simp_all add: same_keys_example_def js_def)
  have k: "Object_keys (same_keys_example ! 0) \<noteq> []"
    by (simp add: same_keys_example_def)
  have s: "list_all (\<lambda>item. set (Object_keys item) = set (Object_keys (same_keys_example ! 0)))
             same_keys_example"
    by (auto simp add: same_keys_example_def)
  show ?thesis
    using tabular_candidate_same_keys [OF h] k s by simp
qed

text \<open>
  C1 as stated fails. All elements of \<open>[{a:1,b:2},{a:3}]\<close> are mappings, and the second
  lacks the key \<open>b\<close>. The array is not counted as tabular (\<open>percentTabular = 0\<close>), and
  the fractional ratio 3/4 that \<open>calculateUniformity\<close> would give never enters the
  score, which stays at the default 1.
\<close>

theorem mismatched_keys_counterexample:
  "list_all is_plain_object mixed_keys_example \<and>
   \<not> isUniformObjectArray mixed_keys_example \<and>
   percentTabular (analyzeDataStructure (JArr mixed_keys_example)) = Num 0 \<and>
   uniformityScore (analyzeDataStructure (JArr mixed_keys_example)) = Num 1 \<and>
   calculateUniformity mixed_keys_example = Num (3 / 4)"
proof -
  have u: "\<not> isUniformObjectArray mixed_keys_example"
    by (simp add: isUniformObjectArray_def mixed_keys_example_def js_def)
  have a: "analyzeDataStructure (JArr mixed_keys_example) =
      \<lparr>percentTabular = Num 0, nestedDepth = 2, uniformityScore = Num 1\<rparr>"
    by (simp add: analyzeDataStructure_def u initial_counters_def Let_def of_count_def
          round_double_0)
       (simp add: mixed_keys_example_def round_double_0)
  have c: "calculateUniformity mixed_keys_example = Num (3 / 4)"
    by (simp add: calculateUniformity_def mixed_keys_example_def js_def has_property_def
        of_count_def round_double_three_quarters)
  show ?thesis
    using u a c by (simp add: mixed_keys_example_def)
qed

text \<open>
  C3, as the code has it. For \<open>{level1:{level2:{level3:{level4:{deep:"value"}}}}}\<close> the
  analysis returns \<open>percentTabular = 0\<close> and \<open>nestedDepth = 5\<close>: the root is at depth
  0, the object under \<open>level4\<close> at depth 4, and the string \<open>"value"\<close> in it at depth
  5. Under the default thresholds \<open>shouldUseTOON\<close> is false.
\<close>

theorem nested_example_stats:
  "percentTabular (analyzeDataStructure nested_example) = Num 0 \<and>
   nestedDepth (analyzeDataStructure nested_example) = 5 \<and>
   shouldUseTOON (analyzeEligibility DEFAULT_CONFIG h nested_example) = False"
proof -
  have a: "analyzeDataStructure nested_example =
      \<lparr>percentTabular = Num 0, nestedDepth = 5, uniformityScore = Num 1\<rparr>"
    by (simp add: analyzeDataStructure_def nested_example_def initial_counters_def Let_def)
  show ?thesis
    by (simp add: analyzeEligibility_def a Let_def js_ge_def DEFAULT_CONFIG_def)
qed

text \<open>C3 as stated fails: the depth of that input is not 4.\<close>

theorem nested_example_depth_counterexample:
  "nestedDepth (analyzeDataStructure nested_example) \<noteq> 4"
  by (simp add: analyzeDataStructure_def nested_example_def initial_counters_def Let_def)

section \<open>Properties of the eligibility decision\<close>

text \<open>
  C6. The decision is exactly the conjunction of the three threshold tests, for every
  value that is analysed and every configuration the decision reads:
  \<open>shouldUseTOON\<close> holds if and only if \<open>percentTabular >= minTabularPercent\<close> and
  \<open>nestedDepth <= maxNestedDepth\<close> and \<open>uniformityScore >= minUniformityScore\<close>.
\<close>

theorem analyzeEligibility_decision:
  "shouldUseTOON (analyzeEligibility defaults h d) \<longleftrightarrow>
     js_ge (percentTabular (analyzeEligibility defaults h d))
           (minTabularPercent (TOONConfig.eligibility defaults)) \<and>
     js_le (of_count (nestedDepth (analyzeEligibility defaults h d)))
           (maxNestedDepth (TOONConfig.eligibility defaults)) \<and>
     js_ge (uniformityScore (analyzeEligibility defaults h d))
           (minUniformityScore (TOONConfig.eligibility defaults))"
  by (simp add: analyzeEligibility_def Let_def)

lemma analyzeEligibility_stats:
  "percentTabular (analyzeEligibility defaults h d) = percentTabular (analyzeDataStructure d)"
  "nestedDepth (analyzeEligibility defaults h d) = nestedDepth (analyzeDataStructure d)"
  "uniformityScore (analyzeEligibility defaults h d) = uniformityScore (analyzeDataStructure d)"
  by (simp_all add: analyzeEligibility_def Let_def)

lemma js_le_trans: "js_le a b \<Longrightarrow> js_le b c \<Longrightarrow> js_le a c"
  by (cases a; cases b; cases c) simp_all

text \<open>
  C9. The decision is monotone in the thresholds. For a fixed value, if the second
  configuration raises (or keeps) \<open>minTabularPercent\<close> and \<open>minUniformityScore\<close> and
  lowers (or keeps) \<open>maxNestedDepth\<close>, then a decision that is false under the first
  configuration is false under the second.
\<close>

theorem decision_monotone:
  assumes "minTabularPercent t2 = minTabularPercent t1 \<or>
           js_le (minTabularPercent t1) (minTabularPercent t2)"
    and "minUniformityScore t2 = minUniformityScore t1 \<or>
         js_le (minUniformityScore t1) (minUniformityScore t2)"
    and "maxNestedDepth t2 = maxNestedDepth t1 \<or>
         js_le (maxNestedDepth t2) (maxNestedDepth t1)"
    and "\<not> shouldUseTOON (analyzeEligibility \<lparr>TOONConfig.eligibility = t1\<rparr> h d)"
  shows "\<not> shouldUseTOON (analyzeEligibility \<lparr>TOONConfig.eligibility = t2\<rparr> h d)"
proof
  assume yes: "shouldUseTOON (analyzeEligibility \<lparr>TOONConfig.eligibility = t2\<rparr> h d)"
  define s where "s = analyzeDataStructure d"
  from yes have 2: "js_le (minTabularPercent t2) (percentTabular s)"
    "js_le (of_count (nestedDepth s)) (maxNestedDepth t2)"
    "js_le (minUniformityScore t2) (uniformityScore s)"
    by (simp_all add: analyzeEligibility_def Let_def js_ge_def s_def)
  from assms(1) 2(1) have "js_le (minTabularPercent t1) (percentTabular s)"
    by (auto intro: js_le_trans)
  moreover from assms(3) 2(2) have "js_le (of_count (nestedDepth s)) (maxNestedDepth t1)"
    by (auto intro: js_le_trans)
  moreover from assms(2) 2(3) have "js_le (minUniformityScore t1) (uniformityScore s)"
    by (auto intro: js_le_trans)
  ultimately have "shouldUseTOON (analyzeEligibility \<lparr>TOONConfig.eligibility = t1\<rparr> h d)"
    by (simp add: analyzeEligibility_def Let_def js_ge_def s_def)
  with assms(4) show False by simp
qed

text \<open>From the default thresholds 60/4/0.8 to 70/3/0.9, on the nested object.\<close>

theorem decision_monotone_witness:
  "\<not> shouldUseTOON
       (analyzeEligibility \<lparr>TOONConfig.eligibility = strict_thresholds\<rparr> example_host
          nested_example)"
proof -
  have a: "analyzeDataStructure nested_example =
      \<lparr>percentTabular = Num 0, nestedDepth = 5, uniformityScore = Num 1\<rparr>"
    by (simp add: analyzeDataStructure_def nested_example_def initial_counters_def Let_def)
  have no: "\<not> shouldUseTOON
       (analyzeEligibility \<lparr>TOONConfig.eligibility = TOONConfig.eligibility DEFAULT_CONFIG\<rparr>
          example_host nested_example)"
    by (simp add: analyzeEligibility_def a Let_def js_ge_def DEFAULT_CONFIG_def)
  show ?thesis
    by (rule decision_monotone [OF _ _ _ no])
       (simp_all add: DEFAULT_CONFIG_def strict_thresholds_def)
qed

text \<open>The table \<open>[{a:1,b:2},{b:3,a:4}]\<close> under the default thresholds.\<close>

theorem analyzeEligibility_decision_witness:
  "shouldUseTOON (analyzeEligibility DEFAULT_CONFIG example_host (JArr same_keys_example))"
proof -
  have u: "isUniformObjectArray same_keys_example"
    by (simp add: isUniformObjectArray_def same_keys_example_def js_def)
  have c: "calculateUniformity same_keys_example = Num 1"
    by (simp add: calculateUniformity_def same_keys_example_def js_def has_property_def
        of_count_def round_double_1)
  have a: "analyzeDataStructure (JArr same_keys_example) =
      \<lparr>percentTabular = Num 100, nestedDepth = 2, uniformityScore = Num 1\<rparr>"
    by (simp add: analyzeDataStructure_def u c initial_counters_def Let_def of_count_def
          round_double_1 round_double_100)
       (simp add: same_keys_example_def round_double_1 round_double_100)
  show ?thesis
    unfolding analyzeEligibility_decision [of DEFAULT_CONFIG example_host "JArr same_keys_example"]
    by (simp add: analyzeEligibility_stats a DEFAULT_CONFIG_def js_ge_def of_count_def)
qed

section \<open>Properties of the pipeline\<close>

lemma preProcess_eq_preProcessRequest:
  "preProcess p defaults h req = preProcessRequest defaults h req"
  by (simp add: preProcess_def preProcessRequest_def)

lemma postProcess_eq_postProcessResponse:
  "postProcess p h response = postProcessResponse h response"
  by (simp add: postProcess_def postProcessResponse_def)

text \<open>
  C10. Pre-processing short-circuits on every falsy \<open>data\<close>: when it is absent, \<open>null\<close>,
  \<open>false\<close>, \<open>0\<close>, \<open>NaN\<close> or the empty string, both \<open>preProcess\<close> and
  \<open>preProcessRequest\<close> return the request unchanged with \<open>toonProcessed = false\<close> and
  the report \<open>{percentTabular:0, nestedDepth:0, uniformityScore:0, shouldUseTOON:false,
  reason:'no data'}\<close>, and they call neither the analyzer nor the cost estimator nor
  the codec: the list of calls is empty.
\<close>

theorem preProcess_falsy_data:
  assumes "data req \<in> {None, Some JNull, Some (JBool False), Some (JNum (Num 0)),
                         Some (JNum NaN), Some (JStr [])}"
  shows "preProcess p defaults h req =
           (\<lparr>request =
               \<lparr>systemPrompt = systemPrompt req, userMessage = userMessage req,
                data = data req, toonProcessed = False, metrics = None\<rparr>,
             eligibility =
               \<lparr>percentTabular = Num 0, nestedDepth = 0, uniformityScore = Num 0,
                shouldUseTOON = False, reason = js ''no data''\<rparr>\<rparr>, []) \<and>
         preProcessRequest defaults h req = preProcess p defaults h req"
proof -
  from assms have "data req = None \<or> (\<exists>d. data req = Some d \<and> \<not> truthy d)"
    by auto
  then have "preProcess p defaults h req =
      (\<lparr>request = unprocessed req, eligibility = no_data_analysis\<rparr>, [])"
    by (auto simp: preProcess_def)
  then show ?thesis
    by (simp add: unprocessed_def no_data_analysis_def preProcess_eq_preProcessRequest)
qed

text \<open>A request whose \<open>data\<close> is \<open>NaN\<close>.\<close>

theorem preProcess_falsy_data_witness:
  "preProcess lenient_processor DEFAULT_CONFIG example_host nan_request =
     (\<lparr>request =
         \<lparr>systemPrompt = js ''You are a data analyst.'', userMessage = js ''Analyze this data.'',
          data = Some (JNum NaN), toonProcessed = False, metrics = None\<rparr>,
       eligibility =
         \<lparr>percentTabular = Num 0, nestedDepth = 0, uniformityScore = Num 0,
          shouldUseTOON = False, reason = js ''no data''\<rparr>\<rparr>, [])"
  using preProcess_falsy_data [of nan_request lenient_processor DEFAULT_CONFIG example_host]
  by (simp add: nan_request_def)

text \<open>
  The two matchers against the languages of the regular expressions: \<open>/\[\d+\]/\<close> finds
  an opening bracket, one or more digits and a closing bracket somewhere in the text,
  \<open>/\{[^}]+\}/\<close> an opening brace, one or more code units other than a closing brace,
  and a closing brace.
\<close>

lemma length_marker_here_iff:
  "length_marker_here cs \<longleftrightarrow>
     (\<exists>ds post. cs = ds @ RBRACKET # post \<and> ds \<noteq> [] \<and> list_all is_digit ds)"
proof
  assume m: "length_marker_here cs"
  then obtain rest where d: "dropWhile is_digit cs = RBRACKET # rest"
    by (auto simp: length_marker_here_def split: list.splits)
  have "cs = takeWhile is_digit cs @ RBRACKET # rest"
    using takeWhile_dropWhile_id [of is_digit cs] d by simp
  moreover have "takeWhile is_digit cs \<noteq> []"
    using m by (simp add: length_marker_here_def)
  moreover have "list_all is_digit (takeWhile is_digit cs)"
    by (auto simp: list_all_iff dest: set_takeWhileD)
  ultimately show "\<exists>ds post. cs = ds @ RBRACKET # post \<and> ds \<noteq> [] \<and> list_all is_digit ds"
    by blast
next
  assume "\<exists>ds post. cs = ds @ RBRACKET # post \<and> ds \<noteq> [] \<and> list_all is_digit ds"
  then obtain ds post where cs: "cs = ds @ RBRACKET # post" and ne: "ds \<noteq> []"
    and dig: "list_all is_digit ds"
    by blast
  have nd: "\<not> is_digit RBRACKET"
    by (simp add: is_digit_def RBRACKET_def)
  from dig have all: "\<And>x. x \<in> set ds \<Longrightarrow> is_digit x"
    by (simp add: list_all_iff)
  have "takeWhile is_digit cs = ds" "dropWhile is_digit cs = RBRACKET # post"
    using all nd by (simp_all add: cs)
  with ne show "length_marker_here cs"
    by (simp add: length_marker_here_def)
qed

lemma test_length_marker_iff:
  "test_length_marker s \<longleftrightarrow>
     (\<exists>pre ds post. s = pre @ LBRACKET # ds @ RBRACKET # post \<and> ds \<noteq> [] \<and>
                     list_all is_digit ds)"
proof (induction s)
  case Nil
  then show ?case by simp
next
  case (Cons c cs)
  show ?case
  proof
    assume "test_length_marker (c # cs)"
    then consider "c = LBRACKET" "length_marker_here cs" | "test_length_marker cs"
      by auto
    then show "\<exists>pre ds post. c # cs = pre @ LBRACKET # ds @ RBRACKET # post \<and> ds \<noteq> [] \<and>
                 list_all is_digit ds"
    proof cases
      case 1
      then obtain ds post where "cs = ds @ RBRACKET # post" "ds \<noteq> []" "list_all is_digit ds"
        unfolding length_marker_here_iff by blast
      with 1(1) have "c # cs = [] @ LBRACKET # ds @ RBRACKET # post \<and> ds \<noteq> [] \<and>
          list_all is_digit ds"
        by simp
      then show ?thesis by blast
    next
      case 2
      then obtain pre ds post where "cs = pre @ LBRACKET # ds @ RBRACKET # post" "ds \<noteq> []"
        "list_all is_digit ds"
        unfolding Cons.IH by blast
      then have "c # cs = (c # pre) @ LBRACKET # ds @ RBRACKET # post \<and> ds \<noteq> [] \<and>
          list_all is_digit ds"
        by simp
      then show ?thesis by blast
    qed
  next
    assume "\<exists>pre ds post. c # cs = pre @ LBRACKET # ds @ RBRACKET # post \<and> ds \<noteq> [] \<and>
              list_all is_digit ds"
    then obtain pre ds post where eq: "c # cs = pre @ LBRACKET # ds @ RBRACKET # post"
      and ds: "ds \<noteq> []" "list_all is_digit ds"
      by blast
    show "test_length_marker (c # cs)"
    proof (cases pre)
      case Nil
      with eq have "c = LBRACKET" "cs = ds @ RBRACKET # post"
        by simp_all
      with ds have "c = LBRACKET \<and> length_marker_here cs"
        unfolding length_marker_here_iff by blast
      then show ?thesis by simp
    next
      case (Cons p pre')
      with eq have "cs = pre' @ LBRACKET # ds @ RBRACKET # post"
        by simp
      with ds have "test_length_marker cs"
        unfolding Cons.IH by blast
      then show ?thesis by simp
    qed
  qed
qed

lemma field_list_here_iff:
  "field_list_here cs \<longleftrightarrow>
     (\<exists>body post. cs = body @ RBRACE # post \<and> body \<noteq> [] \<and> RBRACE \<notin> set body)"
proof
  assume m: "field_list_here cs"
  then have "dropWhile (\<lambda>c. c \<noteq> RBRACE) cs \<noteq> []"
    unfolding field_list_here_def by blast
  then obtain c rest where d: "dropWhile (\<lambda>c. c \<noteq> RBRACE) cs = c # rest"
    unfolding neq_Nil_conv by blast
  have "dropWhile (\<lambda>c. c \<noteq> RBRACE) cs \<noteq> []"
    using d by simp
  then have "\<not> (hd (dropWhile (\<lambda>c. c \<noteq> RBRACE) cs) \<noteq> RBRACE)"
    by (rule hd_dropWhile)
  with d have c: "c = RBRACE" by simp
  have "cs = takeWhile (\<lambda>c. c \<noteq> RBRACE) cs @ RBRACE # rest"
    using takeWhile_dropWhile_id [of "\<lambda>c. c \<noteq> RBRACE" cs] d c by simp
  moreover have "takeWhile (\<lambda>c. c \<noteq> RBRACE) cs \<noteq> []"
    using m unfolding field_list_here_def by blast
  moreover have "RBRACE \<notin> set (takeWhile (\<lambda>c. c \<noteq> RBRACE) cs)"
    by (auto dest: set_takeWhileD)
  ultimately show "\<exists>body post. cs = body @ RBRACE # post \<and> body \<noteq> [] \<and> RBRACE \<notin> set body"
    by blast
next
  assume "\<exists>body post. cs = body @ RBRACE # post \<and> body \<noteq> [] \<and> RBRACE \<notin> set body"
  then obtain body post where cs: "cs = body @ RBRACE # post" and ne: "body \<noteq> []"
    and no: "RBRACE \<notin> set body"
    by blast
  from no have all: "\<And>x. x \<in> set body \<Longrightarrow> x \<noteq> RBRACE"
    by blast
  have "takeWhile (\<lambda>c. c \<noteq> RBRACE) cs = body"
    "dropWhile (\<lambda>c. c \<noteq> RBRACE) cs = RBRACE # post"
    using all by (simp_all add: cs)
  with ne show "field_list_here cs"
    by (simp add: field_list_here_def)
qed

lemma test_field_list_iff:
  "test_field_list s \<longleftrightarrow>
     (\<exists>pre body post. s = pre @ LBRACE # body @ RBRACE # post \<and> body \<noteq> [] \<and>
                       RBRACE \<notin> set body)"
proof (induction s)
  case Nil
  then show ?case by simp
next
  case (Cons c cs)
  show ?case
  proof
    assume "test_field_list (c # cs)"
    then consider "c = LBRACE" "field_list_here cs" | "test_field_list cs"
      by auto
    then show "\<exists>pre body post. c # cs = pre @ LBRACE # body @ RBRACE # post \<and> body \<noteq> [] \<and>
                 RBRACE \<notin> set body"
    proof cases
      case 1
      then obtain body post where "cs = body @ RBRACE # post" "body \<noteq> []" "RBRACE \<notin> set body"
        unfolding field_list_here_iff by blast
      with 1(1) have "c # cs = [] @ LBRACE # body @ RBRACE # post \<and> body \<noteq> [] \<and>
          RBRACE \<notin> set body"
        by simp
      then show ?thesis by blast
    next
      case 2
      then obtain pre body post where "cs = pre @ LBRACE # body @ RBRACE # post" "body \<noteq> []"
        "RBRACE \<notin> set body"
        unfolding Cons.IH by blast
      then have "c # cs = (c # pre) @ LBRACE # body @ RBRACE # post \<and> body \<noteq> [] \<and>
          RBRACE \<notin> set body"
        by simp
      then show ?thesis by blast
    qed
  next
    assume "\<exists>pre body post. c # cs = pre @ LBRACE # body @ RBRACE # post \<and> body \<noteq> [] \<and>
              RBRACE \<notin> set body"
    then obtain pre body post where eq: "c # cs = pre @ LBRACE # body @ RBRACE # post"
      and b: "body \<noteq> []" "RBRACE \<notin> set body"
      by blast
    show "test_field_list (c # cs)"
    proof (cases pre)
      case Nil
      with eq have "c = LBRACE" "cs = body @ RBRACE # post"
        by simp_all
      with b have "c = LBRACE \<and> field_list_here cs"
        unfolding field_list_here_iff by blast
      then show ?thesis by simp
    next
      case (Cons p pre')
      with eq have "cs = pre' @ LBRACE # body @ RBRACE # post"
        by simp
      with b have "test_field_list cs"
        unfolding Cons.IH by blast
      then show ?thesis by simp
    qed
  qed
qed

text \<open>
  C4. \<open>postProcess\<close> calls the decoder only when the trimmed content matches both
  patterns, the bracketed integer and the brace-delimited field list. For every non-empty
  content whose trimmed text does not pass, it returns \<open>{success:false, format:'none'}\<close>
  at once: no decode and no \<open>JSON.parse\<close> is attempted.
\<close>

theorem postProcess_sniff:
  "(\<forall>t. CallToonDecode t \<in> set (snd (postProcess p h r)) \<longrightarrow>
        test_length_marker (trim (content r)) \<and> test_field_list (trim (content r))) \<and>
   (content r \<noteq> [] \<and> \<not> isTOONFormat (trim (content r)) \<longrightarrow>
      postProcess p h r =
        (\<lparr>parsed = None, success = False, format = FormatNone, error = None\<rparr>, []))"
  by (auto simp: postProcess_def Let_def isTOONFormat_def split: option.splits)

lemma prose_no_marker: "\<not> isTOONFormat (trim (content prose_response))"
  by (simp add: prose_response_def js_def trim_def is_white_space_def isTOONFormat_def
      LBRACKET_def LBRACE_def)

text \<open>The response \<open>"plain prose, no markers"\<close>.\<close>

theorem postProcess_sniff_witness:
  "postProcess lenient_processor example_host prose_response =
     (\<lparr>parsed = None, success = False, format = FormatNone, error = None\<rparr>, [])"
proof -
  have "content prose_response \<noteq> []"
    by (simp add: prose_response_def js_def)
  with prose_no_marker postProcess_sniff [of lenient_processor example_host prose_response]
  show ?thesis by blast
qed

text \<open>
  C5. When the content passes the sniff and the decoder fails on the trimmed text,
  \<open>postProcess\<close> calls \<open>JSON.parse\<close> on the untrimmed content. If that succeeds the
  result has \<open>success = true\<close>, \<open>format = 'json'\<close> and an informational \<open>error\<close>; if it
  fails too the result is \<open>{success:false, format:'none', error:'Both formats failed'}\<close>.
  Either way a result is returned: both failures are caught. \<open>postProcessResponse\<close>
  does the same.
\<close>

theorem postProcess_fallback:
  assumes "content r \<noteq> []" and "isTOONFormat (trim (content r))"
    and "toonDecode h (trim (content r)) = None"
  shows "postProcess p h r =
           (case JSON_parse h (content r) of
              Some v \<Rightarrow>
                (\<lparr>parsed = Some v, success = True, format = FormatJson,
                  error = Some (js ''TOON decode failed, fell back to JSON'')\<rparr>,
                 [CallToonDecode (trim (content r)), CallJSONParse (content r)])
            | None \<Rightarrow>
                (\<lparr>parsed = None, success = False, format = FormatNone,
                  error = Some (js ''Both formats failed'')\<rparr>,
                 [CallToonDecode (trim (content r)), CallJSONParse (content r)])) \<and>
         postProcessResponse h r = postProcess p h r"
  using assms
  by (simp add: postProcess_def postProcessResponse_def decodeFromTOON_def Let_def
      split: option.splits)

lemma fallback_text_trim: \<open>trim fallback_text = js ''{"a":[1]}''\<close>
  by (simp add: fallback_text_def js_def trim_def is_white_space_def)

lemma fallback_text_sniff: "isTOONFormat (trim fallback_text)"
  unfolding fallback_text_trim
  by (simp add: js_def isTOONFormat_def LBRACKET_def LBRACE_def RBRACKET_def RBRACE_def
      length_marker_here_def field_list_here_def is_digit_def)

text \<open>
  The content \<open>' {"a":[1]}'\<close> passes the sniff, is no tabular text and parses as JSON;
  its trimmed text stands for a content that neither decoder accepts.
\<close>

theorem postProcess_fallback_witness:
  "postProcess lenient_processor example_host \<lparr>content = fallback_text\<rparr> =
     (\<lparr>parsed = Some fallback_value, success = True, format = FormatJson,
       error = Some (js ''TOON decode failed, fell back to JSON'')\<rparr>,
      [CallToonDecode (trim fallback_text), CallJSONParse fallback_text]) \<and>
   postProcess lenient_processor example_host \<lparr>content = trim fallback_text\<rparr> =
     (\<lparr>parsed = None, success = False, format = FormatNone,
       error = Some (js ''Both formats failed'')\<rparr>,
      [CallToonDecode (trim fallback_text), CallJSONParse (trim fallback_text)])"
proof -
  have ne: "fallback_text \<noteq> []" "trim fallback_text \<noteq> []"
    unfolding fallback_text_trim by (simp_all add: fallback_text_def js_def)
  have idem: "trim (trim fallback_text) = trim fallback_text"
    unfolding fallback_text_trim by (simp add: js_def trim_def is_white_space_def)
  have differ: "trim fallback_text \<noteq> fallback_text"
    unfolding fallback_text_trim by (simp add: fallback_text_def js_def)
  have dec: "toonDecode example_host t = None" for t
    by (simp add: example_host_def)
  have a: "postProcess lenient_processor example_host \<lparr>content = fallback_text\<rparr> =
     (\<lparr>parsed = Some fallback_value, success = True, format = FormatJson,
       error = Some (js ''TOON decode failed, fell back to JSON'')\<rparr>,
      [CallToonDecode (trim fallback_text), CallJSONParse fallback_text])"
    using postProcess_fallback [of "\<lparr>content = fallback_text\<rparr>" example_host lenient_processor]
      ne fallback_text_sniff dec
    by (simp add: example_host_def)
  have b: "postProcess lenient_processor example_host \<lparr>content = trim fallback_text\<rparr> =
     (\<lparr>parsed = None, success = False, format = FormatNone,
       error = Some (js ''Both formats failed'')\<rparr>,
      [CallToonDecode (trim fallback_text), CallJSONParse (trim fallback_text)])"
    using postProcess_fallback [of "\<lparr>content = trim fallback_text\<rparr>" example_host lenient_processor]
      ne fallback_text_sniff dec differ
    by (simp add: example_host_def idem)
  from a b show ?thesis by simp
qed

lemma small_object_stats:
  "analyzeDataStructure small_object =
     \<lparr>percentTabular = Num 0, nestedDepth = 1, uniformityScore = Num 1\<rparr>"
  by (simp add: analyzeDataStructure_def small_object_def initial_counters_def Let_def)

text \<open>
  C2 fails on the code. A processor built with the thresholds 0/4/0.8 pre-processes
  \<open>{a:1}\<close>, whose statistics 0 % tabular, depth 1 and uniformity 1 meet all three
  thresholds of the processor. \<open>preProcess\<close> still decides \<open>shouldUseTOON = false\<close>
  with the reason of the default 60 %: it calls \<open>analyzeEligibility\<close>, which reads
  \<open>DEFAULT_CONFIG\<close>, and never reads \<open>this.config\<close>. The result is that of a processor
  built without any override.
\<close>

theorem preProcess_ignores_processor_config:
  "getConfig lenient_processor = \<lparr>TOONConfig.eligibility = lenient_thresholds\<rparr> \<and>
   js_ge (percentTabular (analyzeDataStructure small_object)) (minTabularPercent lenient_thresholds) \<and>
   js_le (of_count (nestedDepth (analyzeDataStructure small_object)))
         (maxNestedDepth lenient_thresholds) \<and>
   js_ge (uniformityScore (analyzeDataStructure small_object))
         (minUniformityScore lenient_thresholds) \<and>
   shouldUseTOON (eligibility (fst (preProcess lenient_processor DEFAULT_CONFIG h small_request)))
     = False \<and>
   reason (eligibility (fst (preProcess lenient_processor DEFAULT_CONFIG h small_request)))
     = js ''only '' @ Number_toString h (Num 0) @ js ''% tabular (TOON less beneficial)'' \<and>
   toonProcessed (request (fst (preProcess lenient_processor DEFAULT_CONFIG h small_request)))
     = False \<and>
   preProcess lenient_processor DEFAULT_CONFIG h small_request =
     preProcess (new_TOONProcessor DEFAULT_CONFIG None) DEFAULT_CONFIG h small_request"
proof -
  have e: "analyzeEligibility DEFAULT_CONFIG h small_object =
      \<lparr>percentTabular = Num 0, nestedDepth = 1, uniformityScore = Num 1,
       shouldUseTOON = False,
       reason = js ''only '' @ Number_toString h (Num 0) @ js ''% tabular (TOON less beneficial)''\<rparr>"
    by (simp add: analyzeEligibility_def small_object_stats Let_def js_ge_def js_gt_def
        DEFAULT_CONFIG_def of_count_def)
  have t: "truthy small_object"
    by (simp add: small_object_def)
  show ?thesis
    by (simp add: preProcess_def small_request_def e t unprocessed_def small_object_stats
        lenient_thresholds_def lenient_processor_def new_TOONProcessor_def getConfig_def
        js_ge_def of_count_def)
qed

end
